theory Spec2Isabelle
  imports Main
begin

section \<open>Values at the HTTP boundary\<close>

text \<open>
  Request bodies and cookies are JSON objects whose fields this code only ever reads as
  strings: a field is a \<open>string option\<close>, \<open>None\<close> for a field that is absent
  (\<open>undefined\<close> in JavaScript). The guards of the source are written with \<open>!x\<close>, which
  holds for \<open>undefined\<close> and for the empty string.
\<close>

definition falsy :: "string option \<Rightarrow> bool" where
  "falsy v = (case v of None \<Rightarrow> True | Some s \<Rightarrow> s = [])"

text \<open>
  A request after \<open>express.json()\<close> and \<open>cookieParser()\<close> of \<open>server.js\<close>.
  \<open>req.cookies\<close> is always an object. \<open>req.body\<close> is the parsed JSON object of a
  request that carries one; on a request without a body it is the empty object or
  \<open>undefined\<close>, depending on the version of the body parser, which the sources do
  not fix. The record is therefore generic in its body:
  \<^item> \<open>register\<close> and \<open>login\<close>, routes that are posted a JSON body, run on a
    \<open>json_object request\<close>;
  \<^item> the middleware, which also guards a \<open>GET\<close> route, runs on a
    \<open>json_object option request\<close>, \<open>None\<close> for \<open>undefined\<close>.
\<close>

type_synonym json_object = "string \<Rightarrow> string option"

record 'b request =
  cookies :: json_object
  body :: 'b

text \<open>
  \<open>res.cookie(name, value, options)\<close> adds one cookie to the response;
  \<open>maxAge\<close> is in milliseconds.
\<close>

record cookie =
  cname :: string
  cvalue :: string
  httpOnly :: bool
  secure :: bool
  sameSite :: string
  maxAge :: nat

section \<open>The account document (userSchema)\<close>

text \<open>
  One record per document of the \<open>user\<close> collection. \<open>doc_id\<close> is the document's
  \<open>_id\<close> (an identifier cannot start with an underscore here), as the string that
  a signed token carries. Expiry timestamps are epoch milliseconds.
\<close>

record account =
  doc_id :: string
  name :: string
  email :: string
  password :: string
  verifyOtp :: string
  verifyOtpExpireAt :: nat
  isAccountVerified :: bool
  resetOtp :: string
  resetOtpExpireAt :: nat

type_synonym store = "account list"

text \<open>
  \<open>new userModel({ name, email, password })\<close>: the three given fields, a fresh
  \<open>_id\<close>, and the schema's defaults for everything else.
\<close>

definition new_userModel :: "string \<Rightarrow> string \<Rightarrow> string \<Rightarrow> string \<Rightarrow> account" where
  "new_userModel oid nm em pw =
     \<lparr>doc_id = oid, name = nm, email = em, password = pw,
      verifyOtp = [], verifyOtpExpireAt = 0, isAccountVerified = False,
      resetOtp = [], resetOtpExpireAt = 0\<rparr>"

text \<open>\<open>userModel.findOne({ email })\<close>: the first document with that email, or null.\<close>

definition findOne :: "store \<Rightarrow> string \<Rightarrow> account option" where
  "findOne db em = find (\<lambda>u. email u = em) db"

text \<open>
  \<open>user.save()\<close> of a new document. The schema's validators run first
  (\<open>required: true\<close> on name, email and password rejects an empty string), then the
  insert, which the unique indexes on \<open>_id\<close> and \<open>email\<close> can refuse. Either failure is
  thrown, and the caller's \<open>catch\<close> receives it.
\<close>

datatype db_error = ValidatorError | DuplicateKeyError

definition save :: "store \<Rightarrow> account \<Rightarrow> db_error + store" where
  "save db u =
     (if name u = [] \<or> email u = [] \<or> password u = [] then Inl ValidatorError
      else if email u \<in> set (map email db) \<or> doc_id u \<in> set (map doc_id db)
        then Inl DuplicateKeyError
      else Inr (db @ [u]))"

section \<open>Libraries and configuration\<close>

text \<open>
  \<open>bcryptjs\<close> and \<open>jsonwebtoken\<close> are not part of the repository: the handlers take
  them as parameters.
  \<^item> \<open>bcrypt_hash password rounds salt\<close> is \<open>bcrypt.hash(password, rounds)\<close>, with the
    salt the library draws made explicit;
  \<^item> \<open>bcrypt_compare password hash\<close> is \<open>bcrypt.compare(password, hash)\<close>;
  \<^item> \<open>jwt_sign id secret expiresIn clock\<close> is
    \<open>jwt.sign({ id }, secret, { expiresIn })\<close> at time \<open>clock\<close>;
  \<^item> \<open>jwt_verify token secret clock\<close> is \<open>jwt.verify(token, secret)\<close> at time
    \<open>clock\<close>: the decoded payload, or the error it throws.

  Hashing and signing are called on strings with a configured secret, where they
  return; verification is the one call whose errors the source handles.
\<close>

datatype jwt_error = JsonWebTokenError string | TokenExpiredError | NotBeforeError

record jwt_payload =
  jwt_id :: "string option"
  jwt_iat :: nat
  jwt_exp :: "nat option"

record libs =
  bcrypt_hash :: "string \<Rightarrow> nat \<Rightarrow> string \<Rightarrow> string"
  bcrypt_compare :: "string \<Rightarrow> string \<Rightarrow> bool"
  jwt_sign :: "string \<Rightarrow> string \<Rightarrow> string \<Rightarrow> nat \<Rightarrow> string"
  jwt_verify :: "string \<Rightarrow> string \<Rightarrow> nat \<Rightarrow> jwt_error + jwt_payload"

text \<open>\<open>process.env\<close>: the signing secret, and \<open>NODE_ENV\<close>, which may be unset.\<close>

record process_env =
  JWT_SECRET :: string
  NODE_ENV :: "string option"

section \<open>Responses\<close>

text \<open>
  Every handler answers with \<open>res.json({ success, message })\<close>. The message is a
  literal of the source, or \<open>error.message\<close> of what the \<open>catch\<close> block caught.
\<close>

datatype message = Literal string | Thrown db_error

record response =
  success :: bool
  message :: "message option"
  set_cookies :: "cookie list"

section \<open>Credential service (controller/authController.js)\<close>

text \<open>
  \<open>register\<close> reads the clock (\<open>now\<close>), the salt that \<open>bcrypt.hash\<close> draws and the
  \<open>_id\<close> that the new document gets; it returns the store after the request and the
  response.
\<close>

definition register ::
    "libs \<Rightarrow> process_env \<Rightarrow> nat \<Rightarrow> string \<Rightarrow> string \<Rightarrow> store \<Rightarrow> json_object request
       \<Rightarrow> store \<times> response" where
  "register L env now salt oid db req =
     (let nm = body req ''name''; em = body req ''email''; pw = body req ''password'' in
      if falsy nm \<or> falsy em \<or> falsy pw
      then (db, \<lparr>success = False, message = Some (Literal ''Missing Details''), set_cookies = []\<rparr>)
      else
        (case findOne db (the em) of
           Some existingUser \<Rightarrow>
             (db, \<lparr>success = False, message = Some (Literal ''User already exists''),
                   set_cookies = []\<rparr>)
         | None \<Rightarrow>
             (let hashedPassword = bcrypt_hash L (the pw) 10 salt;
                  user = new_userModel oid (the nm) (the em) hashedPassword
              in case save db user of
                   Inl error \<Rightarrow>
                     (db, \<lparr>success = False, message = Some (Thrown error), set_cookies = []\<rparr>)
                 | Inr db' \<Rightarrow>
                     (let token = jwt_sign L (doc_id user) (JWT_SECRET env) ''7d'' now in
                      (db', \<lparr>success = True, message = None,
                             set_cookies =
                               [\<lparr>cname = ''token'', cvalue = token, httpOnly = True,
                                 secure = (NODE_ENV env = Some ''production''),
                                 sameSite = (if NODE_ENV env = Some ''production''
                                             then ''none'' else ''strict''),
                                 maxAge = 7 * 24 * 60 * 60 * 1000\<rparr>]\<rparr>)))))"

text \<open>\<open>login\<close> writes nothing to the store: it returns the response only.\<close>

definition login ::
    "libs \<Rightarrow> process_env \<Rightarrow> nat \<Rightarrow> store \<Rightarrow> json_object request \<Rightarrow> response" where
  "login L env now db req =
     (let em = body req ''email''; pw = body req ''password'' in
      if falsy em \<or> falsy pw
      then \<lparr>success = False, message = Some (Literal ''Email and password are required''),
            set_cookies = []\<rparr>
      else
        (case findOne db (the em) of
           None \<Rightarrow>
             \<lparr>success = False, message = Some (Literal ''Invalid email''), set_cookies = []\<rparr>
         | Some user \<Rightarrow>
             (let isMatch = bcrypt_compare L (the pw) (password user) in
              if \<not> isMatch
              then \<lparr>success = False, message = Some (Literal ''Invalid password''),
                    set_cookies = []\<rparr>
              else
                (let token = jwt_sign L (doc_id user) (JWT_SECRET env) ''7d'' now in
                 \<lparr>success = True, message = None,
                  set_cookies =
                    [\<lparr>cname = ''token'', cvalue = token, httpOnly = True,
                      secure = (NODE_ENV env = Some ''production''),
                      sameSite = (if NODE_ENV env = Some ''production''
                                  then ''none'' else ''strict''),
                      maxAge = 7 * 24 * 60 * 60 * 1000\<rparr>]\<rparr>))))"

section \<open>Session middleware (middleware/userAuth.js)\<close>

text \<open>
  A middleware either answers the request itself or calls \<open>next()\<close>, handing the
  (possibly modified) request to the handler after it. An error thrown inside the
  \<open>try\<close> block, whatever it is, ends in the \<open>catch\<close> block's answer. Two
  statements of the block can throw: \<open>jwt.verify\<close>, on a token it does not accept,
  and the assignment \<open>req.body.userId = tokenDecode.id\<close>, a TypeError when
  \<open>req.body\<close> is \<open>undefined\<close>. The request that is passed on has a body, the one
  that the assignment wrote to.
\<close>

datatype mw_result = Respond response | Next "json_object request"

definition userAuth ::
    "libs \<Rightarrow> process_env \<Rightarrow> nat \<Rightarrow> json_object option request \<Rightarrow> mw_result" where
  "userAuth L env now req =
     (let token = cookies req ''token'' in
      if falsy token
      then Respond \<lparr>success = False, message = Some (Literal ''Not Authorized, login again''),
                    set_cookies = []\<rparr>
      else
        (case jwt_verify L (the token) (JWT_SECRET env) now of
           Inl error \<Rightarrow>
             Respond \<lparr>success = False, message = Some (Literal ''Not Authorized, login again''),
                      set_cookies = []\<rparr>
         | Inr tokenDecode \<Rightarrow>
             if \<not> falsy (jwt_id tokenDecode)
             then
               (case body req of
                  None \<Rightarrow>
                    Respond \<lparr>success = False,
                             message = Some (Literal ''Not Authorized, login again''),
                             set_cookies = []\<rparr>
                | Some b \<Rightarrow>
                    Next \<lparr>cookies = cookies req,
                          body = b(''userId'' := jwt_id tokenDecode)\<rparr>)
             else Respond \<lparr>success = False,
                           message = Some (Literal ''Not Authorized, login again''),
                           set_cookies = []\<rparr>))"

text \<open>
  \<open>userRouter.get("/data", userAuth, getUserData)\<close>: the handler runs only on the
  request that the middleware passes on. The controller is a parameter.
\<close>

definition userRouter_data ::
    "libs \<Rightarrow> process_env \<Rightarrow> nat \<Rightarrow> (json_object request \<Rightarrow> response)
       \<Rightarrow> json_object option request \<Rightarrow> response" where
  "userRouter_data L env now getUserData req =
     (case userAuth L env now req of
        Respond res \<Rightarrow> res
      | Next req' \<Rightarrow> getUserData req')"

section \<open>Verification service\<close>

text \<open>
  The controller functions for one-time codes (sending a verification code, verifying
  an account, requesting a reset, resetting a password) are not among the source files:
  the guide that holds \<open>register\<close> and \<open>login\<close> lists them as additional features
  only. The definitions of this section follow section 4.2 of the specification.
\<close>

text \<open>
  Modelled from the spec: the failures of the absent controllers, named by the taxonomy
  of section 7. \<open>AlreadyVerified\<close> stands for the failure of sending a code to a
  verified account, for which the specification names no class.
\<close>

datatype error =
    ValidationError | ConflictError | AuthError | NotFoundError
  | InvalidCodeError | ExpiredCodeError | DeliveryError | AlreadyVerified

text \<open>
  Modelled from the spec: the lookup of an account by its id, which the absent
  controllers need ("fails with NotFoundError if account missing").
\<close>

definition findById :: "store \<Rightarrow> string \<Rightarrow> account option" where
  "findById db i = find (\<lambda>u. doc_id u = i) db"

text \<open>
  Modelled from the spec: the write-back of a changed account, absent with the
  controllers. The account with the given id is replaced by its update; every other
  account stays as it is.
\<close>

definition updateById :: "store \<Rightarrow> string \<Rightarrow> (account \<Rightarrow> account) \<Rightarrow> store" where
  "updateById db i f = map (\<lambda>u. if doc_id u = i then f u else u) db"

text \<open>
  Modelled from the spec: the writing of a "numeric code", a number in decimal digits,
  most significant digit first.
\<close>

definition digit_char :: "nat \<Rightarrow> char" where
  "digit_char d = ''0123456789'' ! d"

fun decimal :: "nat \<Rightarrow> string" where
  "decimal n = (if n < 10 then [digit_char n] else decimal (n div 10) @ [digit_char (n mod 10)])"

text \<open>
  The equation of \<open>decimal\<close> unfolds for ever on an argument that is not a numeral:
  it is applied by hand.
\<close>

declare decimal.simps [simp del]

text \<open>
  Modelled from the spec: "zero-padded". A string shorter than the width gets the
  padding character on its left; a longer one is left as it is.
\<close>

definition padStart :: "nat \<Rightarrow> char \<Rightarrow> string \<Rightarrow> string" where
  "padStart w c s = replicate (w - length s) c @ s"

text \<open>
  Modelled from the spec: the code generator of the absent \<open>sendVerificationCode\<close> and
  \<open>requestPasswordReset\<close>, "a 6-digit numeric code (uniformly random, zero-padded)".
  The random draw \<open>rnd\<close> is an input; the code is its residue below one million,
  written in decimal and padded with zeros on the left to six characters.
\<close>

definition generateOtp :: "nat \<Rightarrow> string" where
  "generateOtp rnd = padStart 6 (CHR ''0'') (decimal (rnd mod 1000000))"

text \<open>The pattern \<open>^[0-9]{6}$\<close>, and the number that a string of digits denotes.\<close>

definition is_digit :: "char \<Rightarrow> bool" where
  "is_digit c = (c \<in> set ''0123456789'')"

definition matches_otp_pattern :: "string \<Rightarrow> bool" where
  "matches_otp_pattern s = (length s = 6 \<and> list_all is_digit s)"

definition digit_value :: "char \<Rightarrow> nat" where
  "digit_value c = of_char c - 48"

definition otp_value :: "string \<Rightarrow> nat" where
  "otp_value s = foldl (\<lambda>a c. 10 * a + digit_value c) 0 s"

text \<open>
  Modelled from the spec: \<open>sendVerificationCode(accountId)\<close>, absent from the sources.
  It "fails if account already verified; otherwise generates a 6-digit numeric code,
  stores it with a 24-hour expiry, and dispatches it via the Notification Sender; fails
  with DeliveryError if sending fails (code remains stored regardless)". \<open>delivered\<close>
  is the Notification Sender's answer. For an id that no account has, the failure is
  NotFoundError, as \<open>verifyAccount\<close> has it.
\<close>

definition sendVerificationCode ::
    "bool \<Rightarrow> nat \<Rightarrow> nat \<Rightarrow> store \<Rightarrow> string \<Rightarrow> store \<times> (error + unit)" where
  "sendVerificationCode delivered now rnd db accountId =
     (case findById db accountId of
        None \<Rightarrow> (db, Inl NotFoundError)
      | Some u \<Rightarrow>
          if isAccountVerified u then (db, Inl AlreadyVerified)
          else
            (let otp = generateOtp rnd;
                 db' = updateById db accountId
                         (\<lambda>a. a\<lparr>verifyOtp := otp,
                                 verifyOtpExpireAt := now + 24 * 60 * 60 * 1000\<rparr>)
             in if delivered then (db', Inr ()) else (db', Inl DeliveryError)))"

text \<open>
  Modelled from the spec: \<open>verifyAccount(accountId, code)\<close>, absent from the sources.
  It "fails with ValidationError if code empty; fails with NotFoundError if account
  missing; fails with InvalidCodeError if stored code is empty or does not match; fails
  with ExpiredCodeError if current time exceeds expiry; on success, marks account
  verified and clears the code/expiry". A code found expired is cleared at that check
  ("pending to absent on successful use or on expiry detection at check time").
\<close>

definition verifyAccount ::
    "nat \<Rightarrow> store \<Rightarrow> string \<Rightarrow> string \<Rightarrow> store \<times> (error + unit)" where
  "verifyAccount now db accountId code =
     (if code = [] then (db, Inl ValidationError)
      else
        (case findById db accountId of
           None \<Rightarrow> (db, Inl NotFoundError)
         | Some u \<Rightarrow>
             if verifyOtp u = [] \<or> verifyOtp u \<noteq> code then (db, Inl InvalidCodeError)
             else if verifyOtpExpireAt u < now
             then (updateById db accountId
                     (\<lambda>a. a\<lparr>verifyOtp := [], verifyOtpExpireAt := 0\<rparr>),
                   Inl ExpiredCodeError)
             else (updateById db accountId
                     (\<lambda>a. a\<lparr>isAccountVerified := True, verifyOtp := [],
                             verifyOtpExpireAt := 0\<rparr>),
                   Inr ())))"

text \<open>
  Modelled from the spec: \<open>requestPasswordReset(email)\<close>, absent from the sources. It
  "fails with NotFoundError if no matching account; otherwise generates a 6-digit code,
  stores it with a 15-minute expiry, dispatches via Notification Sender". A failed
  dispatch is a DeliveryError, as section 7 names it, and leaves the code stored.
\<close>

definition requestPasswordReset ::
    "bool \<Rightarrow> nat \<Rightarrow> nat \<Rightarrow> store \<Rightarrow> string \<Rightarrow> store \<times> (error + unit)" where
  "requestPasswordReset delivered now rnd db em =
     (case findOne db em of
        None \<Rightarrow> (db, Inl NotFoundError)
      | Some u \<Rightarrow>
          (let otp = generateOtp rnd;
               db' = updateById db (doc_id u)
                       (\<lambda>a. a\<lparr>resetOtp := otp, resetOtpExpireAt := now + 15 * 60 * 1000\<rparr>)
           in if delivered then (db', Inr ()) else (db', Inl DeliveryError)))"

text \<open>
  Modelled from the spec: \<open>resetPassword(email, code, newPassword)\<close>, absent from the
  sources. It "fails with ValidationError if any field missing; fails with
  NotFoundError if no account; fails with InvalidCodeError / ExpiredCodeError per the
  same rules as verification; on success, replaces the stored hash with the hash of
  newPassword and clears the reset code/expiry". The hash is the salted hash that
  \<open>register\<close> uses.
\<close>

definition resetPassword ::
    "libs \<Rightarrow> nat \<Rightarrow> string \<Rightarrow> store \<Rightarrow> string \<Rightarrow> string \<Rightarrow> string \<Rightarrow> store \<times> (error + unit)" where
  "resetPassword L now salt db em code newPassword =
     (if em = [] \<or> code = [] \<or> newPassword = [] then (db, Inl ValidationError)
      else
        (case findOne db em of
           None \<Rightarrow> (db, Inl NotFoundError)
         | Some u \<Rightarrow>
             if resetOtp u = [] \<or> resetOtp u \<noteq> code then (db, Inl InvalidCodeError)
             else if resetOtpExpireAt u < now
             then (updateById db (doc_id u)
                     (\<lambda>a. a\<lparr>resetOtp := [], resetOtpExpireAt := 0\<rparr>),
                   Inl ExpiredCodeError)
             else (updateById db (doc_id u)
                     (\<lambda>a. a\<lparr>password := bcrypt_hash L newPassword 10 salt,
                             resetOtp := [], resetOtpExpireAt := 0\<rparr>),
                   Inr ())))"

section \<open>A small instance of the libraries\<close>

text \<open>
  The theorems below hold for every hashing and token library. To run the handlers on
  concrete requests they are instantiated with this one: a hash that writes the salt,
  a separator and the password, and a token that writes the secret, a dot and the id.
  It has the shape of the real libraries' contracts and none of their security.
\<close>

definition demo_libs :: libs where
  "demo_libs =
     \<lparr>bcrypt_hash = (\<lambda>pw rounds salt. salt @ ''$'' @ pw),
      bcrypt_compare =
        (\<lambda>pw h. drop (Suc (length (takeWhile (\<lambda>c. c \<noteq> CHR ''$'') h))) h = pw),
      jwt_sign = (\<lambda>i secret expiresIn clock. secret @ ''.'' @ i),
      jwt_verify =
        (\<lambda>token secret clock.
           if take (Suc (length secret)) token = secret @ ''.''
           then Inr \<lparr>jwt_id = Some (drop (Suc (length secret)) token),
                     jwt_iat = 0, jwt_exp = None\<rparr>
           else Inl (JsonWebTokenError ''invalid signature''))\<rparr>"

definition demo_env :: process_env where
  "demo_env = \<lparr>JWT_SECRET = ''k'', NODE_ENV = None\<rparr>"

definition alice :: account where
  "alice =
     \<lparr>doc_id = ''u1'', name = ''A'', email = ''a@x.com'', password = ''s$p1'',
      verifyOtp = [], verifyOtpExpireAt = 0, isAccountVerified = False,
      resetOtp = [], resetOtpExpireAt = 0\<rparr>"

definition alice_pending :: account where
  "alice_pending =
     \<lparr>doc_id = ''u1'', name = ''A'', email = ''a@x.com'', password = ''s$p1'',
      verifyOtp = ''000042'', verifyOtpExpireAt = 100, isAccountVerified = False,
      resetOtp = ''234042'', resetOtpExpireAt = 100\<rparr>"

definition json_body :: "(string \<times> string) list \<Rightarrow> json_object request" where
  "json_body kvs = \<lparr>cookies = (\<lambda>k. None), body = map_of kvs\<rparr>"

definition with_cookie :: "string \<Rightarrow> (string \<times> string) list \<Rightarrow> json_object request" where
  "with_cookie token kvs = \<lparr>cookies = [''token'' \<mapsto> token], body = map_of kvs\<rparr>"

text \<open>
  A request as it reaches the middleware: the \<open>token\<close> cookie, and the fields of the
  body, or \<open>None\<close> for a request whose \<open>req.body\<close> is \<open>undefined\<close>.
\<close>

definition incoming ::
    "string \<Rightarrow> (string \<times> string) list option \<Rightarrow> json_object option request" where
  "incoming token kvs = \<lparr>cookies = [''token'' \<mapsto> token], body = map_option map_of kvs\<rparr>"

section \<open>Basic facts about the store and the guards\<close>

lemma falsy_simps: "falsy None" "falsy (Some s) = (s = [])"
  by (simp_all add: falsy_def)

lemma findOne_None_iff: "findOne db em = None \<longleftrightarrow> em \<notin> set (map email db)"
  by (auto simp: findOne_def find_None_iff)

lemma findOne_Some_email: "findOne db em = Some u \<Longrightarrow> email u = em \<and> u \<in> set db"
  by (auto simp: findOne_def find_Some_iff)

text \<open>A successful registration appends exactly one account, the one it answers for.\<close>

lemma register_success_store:
  assumes "register L env now salt oid db req = (db', res)" and "success res"
  shows "\<exists>u. db' = db @ [u] \<and> Some (email u) = body req ''email'' \<and> doc_id u = oid
           \<and> findOne db (email u) = None"
  using assms
  by (auto simp: register_def Let_def save_def new_userModel_def falsy_def
           split: if_splits option.splits sum.splits)

lemma register_success_cookie:
  assumes "register L env now salt oid db req = (db', res)" and "success res"
  shows "set_cookies res =
           [\<lparr>cname = ''token'', cvalue = jwt_sign L oid (JWT_SECRET env) ''7d'' now,
             httpOnly = True, secure = (NODE_ENV env = Some ''production''),
             sameSite = (if NODE_ENV env = Some ''production'' then ''none'' else ''strict''),
             maxAge = 604800000\<rparr>]"
  using assms
  by (auto simp: register_def Let_def save_def new_userModel_def
           split: if_splits option.splits sum.splits)

lemma login_success_cookie:
  assumes "success (login L env now db req)"
  shows "\<exists>u. findOne db (the (body req ''email'')) = Some u \<and>
           set_cookies (login L env now db req) =
           [\<lparr>cname = ''token'', cvalue = jwt_sign L (doc_id u) (JWT_SECRET env) ''7d'' now,
             httpOnly = True, secure = (NODE_ENV env = Some ''production''),
             sameSite = (if NODE_ENV env = Some ''production'' then ''none'' else ''strict''),
             maxAge = 604800000\<rparr>]"
  using assms
  by (auto simp: login_def Let_def split: if_splits option.splits)

text \<open>Whatever else the request holds, a taken email stops \<open>register\<close> before any write.\<close>

lemma register_email_taken:
  assumes "em \<in> set (map email db)" and "body req ''email'' = Some em"
  shows "fst (register L env now salt oid db req) = db"
    and "\<not> success (snd (register L env now salt oid db req))"
    and "\<not> falsy (body req ''name'') \<Longrightarrow> \<not> falsy (body req ''password'') \<Longrightarrow> em \<noteq> [] \<Longrightarrow>
            snd (register L env now salt oid db req) =
              \<lparr>success = False, message = Some (Literal ''User already exists''),
               set_cookies = []\<rparr>"
proof -
  from assms(1) obtain u where "findOne db em = Some u"
    using findOne_None_iff [of db em] by (cases "findOne db em") auto
  with assms(2) show "fst (register L env now salt oid db req) = db"
    and "\<not> success (snd (register L env now salt oid db req))"
    and "\<not> falsy (body req ''name'') \<Longrightarrow> \<not> falsy (body req ''password'') \<Longrightarrow> em \<noteq> [] \<Longrightarrow>
            snd (register L env now salt oid db req) =
              \<lparr>success = False, message = Some (Literal ''User already exists''),
               set_cookies = []\<rparr>"
    by (simp_all add: register_def Let_def falsy_simps)
qed

section \<open>The handlers on concrete requests\<close>

lemma demo_register:
  "register demo_libs demo_env 0 ''s'' ''u1'' []
       (json_body [(''name'', ''A''), (''email'', ''a@x.com''), (''password'', ''p1'')]) =
     ([alice],
      \<lparr>success = True, message = None,
       set_cookies = [\<lparr>cname = ''token'', cvalue = ''k.u1'', httpOnly = True, secure = False,
                       sameSite = ''strict'', maxAge = 604800000\<rparr>]\<rparr>)"
  by (simp add: register_def Let_def falsy_simps findOne_def save_def new_userModel_def
        json_body_def demo_libs_def demo_env_def alice_def)

lemma demo_login:
  "login demo_libs demo_env 5 [alice]
       (json_body [(''email'', ''a@x.com''), (''password'', ''p1'')]) =
     \<lparr>success = True, message = None,
      set_cookies = [\<lparr>cname = ''token'', cvalue = ''k.u1'', httpOnly = True, secure = False,
                      sameSite = ''strict'', maxAge = 604800000\<rparr>]\<rparr>"
  by (simp add: login_def Let_def falsy_simps findOne_def json_body_def demo_libs_def
        demo_env_def alice_def)

lemma demo_jwt_roundtrip:
  "jwt_verify demo_libs (jwt_sign demo_libs i secret expiresIn clock) secret clock' = Inr p
   \<Longrightarrow> jwt_id p = Some i"
  by (auto simp: demo_libs_def)

section \<open>Registration\<close>

text \<open>
  Claim C2. When the email of a registration request already belongs to a stored
  account, \<open>register\<close> fails and leaves the store as it was, so the number of accounts
  does not change; with name, email and password given (present and not empty, the
  guard of the source), the failure is the conflict answer "User already exists". Hence a
  second registration with the email of a successful first one fails, whatever name
  and password it carries, and with both given it fails with the conflict answer.
\<close>

theorem register_existing_email_conflict:
  "(em \<in> set (map email db) \<and> body req ''email'' = Some em \<longrightarrow>
      fst (register L env now salt oid db req) = db
    \<and> length (fst (register L env now salt oid db req)) = length db
    \<and> \<not> success (snd (register L env now salt oid db req))
    \<and> (\<not> falsy (body req ''name'') \<and> em \<noteq> [] \<and> \<not> falsy (body req ''password'') \<longrightarrow>
          snd (register L env now salt oid db req) =
            \<lparr>success = False, message = Some (Literal ''User already exists''),
             set_cookies = []\<rparr>))
 \<and> (register L env t1 salt1 oid1 db0 req1 = (db1, res1) \<and> success res1
      \<and> body req2 ''email'' = body req1 ''email'' \<longrightarrow>
      fst (register L env t2 salt2 oid2 db1 req2) = db1
    \<and> \<not> success (snd (register L env t2 salt2 oid2 db1 req2))
    \<and> (\<not> falsy (body req2 ''name'') \<and> \<not> falsy (body req2 ''password'') \<longrightarrow>
          snd (register L env t2 salt2 oid2 db1 req2) =
            \<lparr>success = False, message = Some (Literal ''User already exists''),
             set_cookies = []\<rparr>))"
proof (intro conjI impI)
  assume a: "em \<in> set (map email db) \<and> body req ''email'' = Some em"
  then show "fst (register L env now salt oid db req) = db"
    and "\<not> success (snd (register L env now salt oid db req))"
    using register_email_taken(1,2) by blast+
  then show "length (fst (register L env now salt oid db req)) = length db" by simp
  assume "\<not> falsy (body req ''name'') \<and> em \<noteq> [] \<and> \<not> falsy (body req ''password'')"
  with a show "snd (register L env now salt oid db req) =
            \<lparr>success = False, message = Some (Literal ''User already exists''),
             set_cookies = []\<rparr>"
    using register_email_taken(3) by blast
next
  assume b: "register L env t1 salt1 oid1 db0 req1 = (db1, res1) \<and> success res1
      \<and> body req2 ''email'' = body req1 ''email''"
  then obtain u where u: "db1 = db0 @ [u]" "Some (email u) = body req1 ''email''"
    using register_success_store by blast
  from b have ne: "\<not> falsy (body req1 ''email'')"
    by (auto simp: register_def Let_def split: if_splits)
  from u b have taken: "email u \<in> set (map email db1)" "body req2 ''email'' = Some (email u)"
    by simp_all
  with ne u have "email u \<noteq> []" by (metis falsy_simps(2))
  from taken show "fst (register L env t2 salt2 oid2 db1 req2) = db1"
    and "\<not> success (snd (register L env t2 salt2 oid2 db1 req2))"
    using register_email_taken(1,2) by blast+
  assume "\<not> falsy (body req2 ''name'') \<and> \<not> falsy (body req2 ''password'')"
  with taken \<open>email u \<noteq> []\<close>
  show "snd (register L env t2 salt2 oid2 db1 req2) =
            \<lparr>success = False, message = Some (Literal ''User already exists''),
             set_cookies = []\<rparr>"
    using register_email_taken(3) by blast
qed

text \<open>
  The example of the specification: "A" registers with a@x.com, then "B" tries the
  same email.
\<close>

theorem register_existing_email_conflict_witness:
  "''a@x.com'' \<in> set (map email [alice])
 \<and> register demo_libs demo_env 5 ''t'' ''u2'' [alice]
       (json_body [(''name'', ''B''), (''email'', ''a@x.com''), (''password'', ''p2'')]) =
     ([alice], \<lparr>success = False, message = Some (Literal ''User already exists''),
                set_cookies = []\<rparr>)
 \<and> success (snd (register demo_libs demo_env 0 ''s'' ''u1'' []
       (json_body [(''name'', ''A''), (''email'', ''a@x.com''), (''password'', ''p1'')])))
 \<and> fst (register demo_libs demo_env 0 ''s'' ''u1'' []
       (json_body [(''name'', ''A''), (''email'', ''a@x.com''), (''password'', ''p1'')])) = [alice]"
proof -
  let ?req1 = "json_body [(''name'', ''A''), (''email'', ''a@x.com''), (''password'', ''p1'')]"
  let ?req2 = "json_body [(''name'', ''B''), (''email'', ''a@x.com''), (''password'', ''p2'')]"
  let ?second = "register demo_libs demo_env 5 ''t'' ''u2'' [alice] ?req2"
  have h1: "''a@x.com'' \<in> set (map email [alice])" by (simp add: alice_def)
  have h2: "body ?req2 ''email'' = Some ''a@x.com''" "\<not> falsy (body ?req2 ''name'')"
    "\<not> falsy (body ?req2 ''password'')" "''a@x.com'' \<noteq> []"
    by (simp_all add: json_body_def falsy_simps)
  have h3: "success (snd (register demo_libs demo_env 0 ''s'' ''u1'' [] ?req1))"
    and h4: "fst (register demo_libs demo_env 0 ''s'' ''u1'' [] ?req1) = [alice]"
    by (simp_all add: demo_register)
  have h5: "register demo_libs demo_env 0 ''s'' ''u1'' [] ?req1 =
      ([alice], snd (register demo_libs demo_env 0 ''s'' ''u1'' [] ?req1))"
    by (simp add: demo_register)
  have h6: "body ?req2 ''email'' = body ?req1 ''email''"
    by (simp add: json_body_def)
  note both = register_existing_email_conflict [of "''a@x.com''" "[alice]" ?req2 demo_libs
      demo_env 5 "''t''" "''u2''" 0 "''s''" "''u1''" "[]" ?req1 "[alice]"
      "snd (register demo_libs demo_env 0 ''s'' ''u1'' [] ?req1)" ?req2 5 "''t''" "''u2''"]
  have "fst ?second = [alice]"
    using both h3 h5 h6 by blast
  moreover have "snd ?second = \<lparr>success = False,
      message = Some (Literal ''User already exists''), set_cookies = []\<rparr>"
    using both h1 h2 by blast
  ultimately
  have "?second = ([alice], \<lparr>success = False,
      message = Some (Literal ''User already exists''), set_cookies = []\<rparr>)"
    by (simp add: prod_eq_iff)
  with h1 h3 h4 show ?thesis by blast
qed

text \<open>
  Claim C8. For an email that no stored account has, \<open>register\<close> with name, email and
  password given appends one account that is unverified, has empty verification and
  reset codes and zero expiry timestamps, and answers with success and one HTTP-only
  cookie named \<open>token\<close> whose \<open>maxAge\<close> is seven days in milliseconds. The document id
  is new to the store and the hash is not empty, as the driver and the hashing library
  provide.
\<close>

theorem register_creates_unverified_account:
  assumes "body req ''name'' = Some nm" "nm \<noteq> []"
      and "body req ''email'' = Some em" "em \<noteq> []"
      and "body req ''password'' = Some pw" "pw \<noteq> []"
      and fresh: "em \<notin> set (map email db)"
      and oid: "oid \<notin> set (map doc_id db)"
      and hash: "bcrypt_hash L pw 10 salt \<noteq> []"
  shows "register L env now salt oid db req =
           (db @ [\<lparr>doc_id = oid, name = nm, email = em,
                    password = bcrypt_hash L pw 10 salt,
                    verifyOtp = [], verifyOtpExpireAt = 0, isAccountVerified = False,
                    resetOtp = [], resetOtpExpireAt = 0\<rparr>],
            \<lparr>success = True, message = None,
             set_cookies =
               [\<lparr>cname = ''token'', cvalue = jwt_sign L oid (JWT_SECRET env) ''7d'' now,
                 httpOnly = True, secure = (NODE_ENV env = Some ''production''),
                 sameSite = (if NODE_ENV env = Some ''production'' then ''none'' else ''strict''),
                 maxAge = 7 * 24 * 60 * 60 * 1000\<rparr>]\<rparr>)"
proof -
  from fresh have "findOne db em = None" by (simp add: findOne_None_iff)
  with assms show ?thesis
    by (simp add: register_def Let_def falsy_simps save_def new_userModel_def)
qed

theorem register_creates_unverified_account_witness:
  "''a@x.com'' \<notin> set (map email [])
 \<and> ''u1'' \<notin> set (map doc_id [])
 \<and> bcrypt_hash demo_libs ''p1'' 10 ''s'' \<noteq> []
 \<and> register demo_libs demo_env 0 ''s'' ''u1'' []
       (json_body [(''name'', ''A''), (''email'', ''a@x.com''), (''password'', ''p1'')]) =
     ([\<lparr>doc_id = ''u1'', name = ''A'', email = ''a@x.com'', password = ''s$p1'',
        verifyOtp = [], verifyOtpExpireAt = 0, isAccountVerified = False,
        resetOtp = [], resetOtpExpireAt = 0\<rparr>],
      \<lparr>success = True, message = None,
       set_cookies = [\<lparr>cname = ''token'', cvalue = ''k.u1'', httpOnly = True, secure = False,
                       sameSite = ''strict'', maxAge = 604800000\<rparr>]\<rparr>)"
proof -
  let ?req = "json_body [(''name'', ''A''), (''email'', ''a@x.com''), (''password'', ''p1'')]"
  have h: "body ?req ''name'' = Some ''A''" "''A'' \<noteq> []"
    "body ?req ''email'' = Some ''a@x.com''" "''a@x.com'' \<noteq> []"
    "body ?req ''password'' = Some ''p1''" "''p1'' \<noteq> []"
    "''a@x.com'' \<notin> set (map email [])" "''u1'' \<notin> set (map doc_id [])"
    "bcrypt_hash demo_libs ''p1'' 10 ''s'' \<noteq> []"
    by (simp_all add: json_body_def demo_libs_def)
  from register_creates_unverified_account [OF h, of demo_env 0]
  show ?thesis
    using h(7-9) by (simp add: demo_libs_def demo_env_def)
qed

section \<open>Login\<close>

text \<open>
  Claim C3, as amended. For every stored account and every wrong password that is not
  empty, \<open>login\<close> fails with the answer "Invalid password" and sets no cookie; for an
  email that no account has it fails with the answer "Invalid email". Both are
  authentication failures, and their messages differ: the answer tells a caller
  whether the email has an account.
\<close>

theorem login_wrong_password_message:
  "(findOne db em = Some u \<and> em \<noteq> [] \<and> pw \<noteq> [] \<and> \<not> bcrypt_compare L pw (password u)
      \<and> body req ''email'' = Some em \<and> body req ''password'' = Some pw \<longrightarrow>
      login L env now db req =
        \<lparr>success = False, message = Some (Literal ''Invalid password''), set_cookies = []\<rparr>)
 \<and> (findOne db em' = None \<and> em' \<noteq> [] \<and> pw' \<noteq> []
      \<and> body req' ''email'' = Some em' \<and> body req' ''password'' = Some pw' \<longrightarrow>
      login L env now db req' =
        \<lparr>success = False, message = Some (Literal ''Invalid email''), set_cookies = []\<rparr>)
 \<and> Literal ''Invalid password'' \<noteq> Literal ''Invalid email''"
  by (simp add: login_def Let_def falsy_simps)

theorem login_wrong_password_message_witness:
  "findOne [alice] ''a@x.com'' = Some alice
 \<and> \<not> bcrypt_compare demo_libs ''p2'' (password alice)
 \<and> login demo_libs demo_env 0 [alice] (json_body [(''email'', ''a@x.com''), (''password'', ''p2'')]) =
      \<lparr>success = False, message = Some (Literal ''Invalid password''), set_cookies = []\<rparr>
 \<and> findOne [alice] ''b@x.com'' = None
 \<and> login demo_libs demo_env 0 [alice] (json_body [(''email'', ''b@x.com''), (''password'', ''p2'')]) =
      \<lparr>success = False, message = Some (Literal ''Invalid email''), set_cookies = []\<rparr>"
proof -
  have h1: "findOne [alice] ''a@x.com'' = Some alice" by (simp add: findOne_def alice_def)
  have h2: "\<not> bcrypt_compare demo_libs ''p2'' (password alice)"
    by (simp add: demo_libs_def alice_def)
  have h3: "findOne [alice] ''b@x.com'' = None" by (simp add: findOne_def alice_def)
  show ?thesis
    using h1 h2 h3
      login_wrong_password_message [of "[alice]" "''a@x.com''" alice "''p2''" demo_libs
        "json_body [(''email'', ''a@x.com''), (''password'', ''p2'')]" demo_env 0
        "''b@x.com''" "''p2''" "json_body [(''email'', ''b@x.com''), (''password'', ''p2'')]"]
    by (simp add: json_body_def)
qed

text \<open>
  The claim as it was stated asks that the failure message does not tell a missing
  email from a wrong password. With one stored account, the same password sent for an
  unknown email and for the known one gives two different messages.
\<close>

theorem login_failure_message_counterexample:
  "message (login demo_libs demo_env 0 [alice]
      (json_body [(''email'', ''b@x.com''), (''password'', ''p2'')])) = Some (Literal ''Invalid email'')
 \<and> message (login demo_libs demo_env 0 [alice]
      (json_body [(''email'', ''a@x.com''), (''password'', ''p2'')])) = Some (Literal ''Invalid password'')
 \<and> message (login demo_libs demo_env 0 [alice]
      (json_body [(''email'', ''b@x.com''), (''password'', ''p2'')]))
   \<noteq> message (login demo_libs demo_env 0 [alice]
      (json_body [(''email'', ''a@x.com''), (''password'', ''p2'')]))"
  by (simp add: login_def Let_def falsy_simps findOne_def alice_def demo_libs_def json_body_def)

section \<open>Session tokens\<close>

text \<open>
  Claim C7. The token that \<open>register\<close> issues for the account it creates and the token
  that a later \<open>login\<close> issues for that account are both signed over the account's id,
  with the same secret and the same \<open>expiresIn\<close> of seven days, and both cookies live
  seven days. So, for a token library whose verification returns the id that was
  signed, the two tokens decode to the same account id.
\<close>

theorem register_login_same_token_id:
  assumes reg: "register L env t1 salt oid db req1 = (db1, res1)" "success res1"
      and log: "findOne db2 em = Some u" "doc_id u = oid" "body req2 ''email'' = Some em"
               "success (login L env t2 db2 req2)"
      and jwt: "\<And>i secret expiresIn clock clock' p.
                 jwt_verify L (jwt_sign L i secret expiresIn clock) secret clock' = Inr p
                 \<Longrightarrow> jwt_id p = Some i"
  shows "\<exists>c1 c2. set_cookies res1 = [c1] \<and> set_cookies (login L env t2 db2 req2) = [c2]
           \<and> cvalue c1 = jwt_sign L oid (JWT_SECRET env) ''7d'' t1
           \<and> cvalue c2 = jwt_sign L oid (JWT_SECRET env) ''7d'' t2
           \<and> maxAge c1 = 7 * 24 * 60 * 60 * 1000 \<and> maxAge c2 = 7 * 24 * 60 * 60 * 1000
           \<and> (\<forall>p1 p2 ta tb.
                 jwt_verify L (cvalue c1) (JWT_SECRET env) ta = Inr p1
               \<and> jwt_verify L (cvalue c2) (JWT_SECRET env) tb = Inr p2
               \<longrightarrow> jwt_id p1 = Some oid \<and> jwt_id p2 = Some oid)"
proof -
  from reg have c1: "set_cookies res1 =
           [\<lparr>cname = ''token'', cvalue = jwt_sign L oid (JWT_SECRET env) ''7d'' t1,
             httpOnly = True, secure = (NODE_ENV env = Some ''production''),
             sameSite = (if NODE_ENV env = Some ''production'' then ''none'' else ''strict''),
             maxAge = 604800000\<rparr>]"
    by (rule register_success_cookie)
  from log have c2: "set_cookies (login L env t2 db2 req2) =
           [\<lparr>cname = ''token'', cvalue = jwt_sign L oid (JWT_SECRET env) ''7d'' t2,
             httpOnly = True, secure = (NODE_ENV env = Some ''production''),
             sameSite = (if NODE_ENV env = Some ''production'' then ''none'' else ''strict''),
             maxAge = 604800000\<rparr>]"
    using login_success_cookie [of L env t2 db2 req2] by auto
  show ?thesis
    by (auto simp: c1 c2 dest: jwt)
qed

theorem register_login_same_token_id_witness:
  "success (snd (register demo_libs demo_env 0 ''s'' ''u1'' []
       (json_body [(''name'', ''A''), (''email'', ''a@x.com''), (''password'', ''p1'')])))
 \<and> findOne [alice] ''a@x.com'' = Some alice \<and> doc_id alice = ''u1''
 \<and> success (login demo_libs demo_env 5 [alice]
       (json_body [(''email'', ''a@x.com''), (''password'', ''p1'')]))
 \<and> map cvalue (set_cookies (snd (register demo_libs demo_env 0 ''s'' ''u1'' []
       (json_body [(''name'', ''A''), (''email'', ''a@x.com''), (''password'', ''p1'')]))))
     = [''k.u1'']
 \<and> map cvalue (set_cookies (login demo_libs demo_env 5 [alice]
       (json_body [(''email'', ''a@x.com''), (''password'', ''p1'')]))) = [''k.u1'']
 \<and> jwt_verify demo_libs ''k.u1'' (JWT_SECRET demo_env) 9 =
       Inr \<lparr>jwt_id = Some ''u1'', jwt_iat = 0, jwt_exp = None\<rparr>"
proof -
  let ?req1 = "json_body [(''name'', ''A''), (''email'', ''a@x.com''), (''password'', ''p1'')]"
  let ?req2 = "json_body [(''email'', ''a@x.com''), (''password'', ''p1'')]"
  have reg: "register demo_libs demo_env 0 ''s'' ''u1'' [] ?req1 =
      ([alice], snd (register demo_libs demo_env 0 ''s'' ''u1'' [] ?req1))"
    "success (snd (register demo_libs demo_env 0 ''s'' ''u1'' [] ?req1))"
    by (simp_all add: demo_register)
  have log: "findOne [alice] ''a@x.com'' = Some alice" "doc_id alice = ''u1''"
    "body ?req2 ''email'' = Some ''a@x.com''" "success (login demo_libs demo_env 5 [alice] ?req2)"
    by (simp_all add: demo_login) (simp_all add: findOne_def alice_def json_body_def)
  have dec: "jwt_verify demo_libs ''k.u1'' (JWT_SECRET demo_env) 9 =
       Inr \<lparr>jwt_id = Some ''u1'', jwt_iat = 0, jwt_exp = None\<rparr>"
    by (simp add: demo_libs_def demo_env_def)
  have "\<exists>c1 c2.
      set_cookies (snd (register demo_libs demo_env 0 ''s'' ''u1'' [] ?req1)) = [c1]
    \<and> set_cookies (login demo_libs demo_env 5 [alice] ?req2) = [c2]
    \<and> cvalue c1 = jwt_sign demo_libs ''u1'' (JWT_SECRET demo_env) ''7d'' 0
    \<and> cvalue c2 = jwt_sign demo_libs ''u1'' (JWT_SECRET demo_env) ''7d'' 5
    \<and> maxAge c1 = 7 * 24 * 60 * 60 * 1000 \<and> maxAge c2 = 7 * 24 * 60 * 60 * 1000
    \<and> (\<forall>p1 p2 ta tb.
          jwt_verify demo_libs (cvalue c1) (JWT_SECRET demo_env) ta = Inr p1
        \<and> jwt_verify demo_libs (cvalue c2) (JWT_SECRET demo_env) tb = Inr p2
        \<longrightarrow> jwt_id p1 = Some ''u1'' \<and> jwt_id p2 = Some ''u1'')"
    by (rule register_login_same_token_id [OF reg log]) (erule demo_jwt_roundtrip)
  then obtain c1 c2 where
    "set_cookies (snd (register demo_libs demo_env 0 ''s'' ''u1'' [] ?req1)) = [c1]"
    "set_cookies (login demo_libs demo_env 5 [alice] ?req2) = [c2]"
    "cvalue c1 = jwt_sign demo_libs ''u1'' (JWT_SECRET demo_env) ''7d'' 0"
    "cvalue c2 = jwt_sign demo_libs ''u1'' (JWT_SECRET demo_env) ''7d'' 5"
    by blast
  then have "map cvalue (set_cookies (snd (register demo_libs demo_env 0 ''s'' ''u1'' [] ?req1)))
      = [''k.u1'']"
    and "map cvalue (set_cookies (login demo_libs demo_env 5 [alice] ?req2)) = [''k.u1'']"
    by (simp_all add: demo_libs_def demo_env_def)
  with reg(2) log(1,2,4) dec show ?thesis by blast
qed

section \<open>Session middleware\<close>

text \<open>
  Claim C4. When the \<open>token\<close> cookie is absent or empty, or \<open>jwt.verify\<close> throws on
  it (a malformed token, a bad signature, an expired token: any error), \<open>userAuth\<close>
  answers "Not Authorized, login again" itself, as an ordinary response, and does not
  call \<open>next\<close>: the route's answer is that response whatever the handler is. When the
  token verifies and carries an id, and \<open>req.body\<close> is an object, \<open>userAuth\<close> calls
  \<open>next\<close> on the request with \<open>body.userId\<close> set to that id, and the handler runs on
  that request. When the token verifies and \<open>req.body\<close> is \<open>undefined\<close>, the id is
  not attached: the assignment throws, and the request is answered "Not Authorized,
  login again" without the handler, against what the claim says of a verified token.
\<close>

theorem userAuth_rejects_or_attaches:
  "(falsy (cookies req ''token'')
      \<or> (\<exists>tok e. cookies req ''token'' = Some tok \<and> jwt_verify L tok (JWT_SECRET env) now = Inl e)
    \<longrightarrow> userAuth L env now req =
          Respond \<lparr>success = False, message = Some (Literal ''Not Authorized, login again''),
                   set_cookies = []\<rparr>
      \<and> (\<forall>getUserData. userRouter_data L env now getUserData req =
            \<lparr>success = False, message = Some (Literal ''Not Authorized, login again''),
             set_cookies = []\<rparr>))
 \<and> (cookies req ''token'' = Some tok \<and> tok \<noteq> []
      \<and> jwt_verify L tok (JWT_SECRET env) now = Inr tokenDecode
      \<and> jwt_id tokenDecode = Some i \<and> i \<noteq> [] \<and> body req = Some b
    \<longrightarrow> userAuth L env now req = Next \<lparr>cookies = cookies req, body = b(''userId'' \<mapsto> i)\<rparr>
      \<and> (\<forall>getUserData. userRouter_data L env now getUserData req =
            getUserData \<lparr>cookies = cookies req, body = b(''userId'' \<mapsto> i)\<rparr>))
 \<and> (cookies req ''token'' = Some tok \<and> tok \<noteq> []
      \<and> jwt_verify L tok (JWT_SECRET env) now = Inr tokenDecode \<and> body req = None
    \<longrightarrow> userAuth L env now req =
          Respond \<lparr>success = False, message = Some (Literal ''Not Authorized, login again''),
                   set_cookies = []\<rparr>
      \<and> (\<forall>getUserData. userRouter_data L env now getUserData req =
            \<lparr>success = False, message = Some (Literal ''Not Authorized, login again''),
             set_cookies = []\<rparr>))"
  by (auto simp: userAuth_def userRouter_data_def Let_def falsy_simps)

text \<open>
  Four requests: no cookie; a token signed with another secret; an accepted token on
  a request with a body; and the same accepted token on a request whose body is
  \<open>undefined\<close>, which is turned away although its token verifies.
\<close>

theorem userAuth_rejects_or_attaches_witness:
  "falsy (cookies \<lparr>cookies = (\<lambda>k. None), body = None\<rparr> ''token'')
 \<and> userAuth demo_libs demo_env 0 \<lparr>cookies = (\<lambda>k. None), body = None\<rparr> =
      Respond \<lparr>success = False, message = Some (Literal ''Not Authorized, login again''),
               set_cookies = []\<rparr>
 \<and> jwt_verify demo_libs ''x.u1'' (JWT_SECRET demo_env) 0 =
      Inl (JsonWebTokenError ''invalid signature'')
 \<and> userAuth demo_libs demo_env 0 (incoming ''x.u1'' (Some [])) =
      Respond \<lparr>success = False, message = Some (Literal ''Not Authorized, login again''),
               set_cookies = []\<rparr>
 \<and> jwt_verify demo_libs ''k.u1'' (JWT_SECRET demo_env) 0 =
      Inr \<lparr>jwt_id = Some ''u1'', jwt_iat = 0, jwt_exp = None\<rparr>
 \<and> userAuth demo_libs demo_env 0 (incoming ''k.u1'' (Some [])) =
      Next (with_cookie ''k.u1'' [(''userId'', ''u1'')])
 \<and> body (incoming ''k.u1'' None) = None
 \<and> userAuth demo_libs demo_env 0 (incoming ''k.u1'' None) =
      Respond \<lparr>success = False, message = Some (Literal ''Not Authorized, login again''),
               set_cookies = []\<rparr>"
proof -
  let ?none = "\<lparr>cookies = (\<lambda>k. None), body = None\<rparr> :: json_object option request"
  have h1: "falsy (cookies ?none ''token'')"
    by (simp add: falsy_simps)
  have h2: "cookies (incoming ''k.u1'' (Some [])) ''token'' = Some ''k.u1''"
    "cookies (incoming ''x.u1'' (Some [])) ''token'' = Some ''x.u1''"
    "cookies (incoming ''k.u1'' None) ''token'' = Some ''k.u1''"
    "body (incoming ''k.u1'' (Some [])) = Some (map_of [])"
    "body (incoming ''k.u1'' None) = None"
    by (simp_all add: incoming_def)
  have h3: "jwt_verify demo_libs ''k.u1'' (JWT_SECRET demo_env) 0 =
      Inr \<lparr>jwt_id = Some ''u1'', jwt_iat = 0, jwt_exp = None\<rparr>"
    "jwt_verify demo_libs ''x.u1'' (JWT_SECRET demo_env) 0 =
      Inl (JsonWebTokenError ''invalid signature'')"
    by (simp_all add: demo_libs_def demo_env_def)
  have same: "\<lparr>cookies = cookies (incoming ''k.u1'' (Some [])),
               body = (map_of [])(''userId'' \<mapsto> ''u1'')\<rparr> =
      with_cookie ''k.u1'' [(''userId'', ''u1'')]"
    by (simp add: incoming_def with_cookie_def)
  show ?thesis
    using h1 h2 h3 same
      userAuth_rejects_or_attaches [of ?none demo_libs demo_env 0]
      userAuth_rejects_or_attaches [of "incoming ''x.u1'' (Some [])" demo_libs demo_env 0]
      userAuth_rejects_or_attaches [of "incoming ''k.u1'' (Some [])" demo_libs demo_env 0
        "''k.u1''" "\<lparr>jwt_id = Some ''u1'', jwt_iat = 0, jwt_exp = None\<rparr>" "''u1''"
        "map_of []"]
      userAuth_rejects_or_attaches [of "incoming ''k.u1'' None" demo_libs demo_env 0
        "''k.u1''" "\<lparr>jwt_id = Some ''u1'', jwt_iat = 0, jwt_exp = None\<rparr>"]
    by simp
qed

text \<open>
  Claim C10. Whenever \<open>userAuth\<close> passes a request on, the \<open>userId\<close> that the handler
  reads in the body is the id decoded from the verified token, and the request is
  otherwise the one received; a \<open>userId\<close> that the client put into the body changes
  nothing in what the middleware does. A token that verifies but whose payload has no
  id, or an empty one, is answered with "Not Authorized, login again".
\<close>

theorem userAuth_userId_from_token:
  "(userAuth L env now req = Next req' \<longrightarrow>
      (\<exists>tok tokenDecode i b.
          cookies req ''token'' = Some tok
        \<and> jwt_verify L tok (JWT_SECRET env) now = Inr tokenDecode
        \<and> jwt_id tokenDecode = Some i \<and> i \<noteq> []
        \<and> body req = Some b
        \<and> body req' ''userId'' = Some i
        \<and> req' = \<lparr>cookies = cookies req, body = b(''userId'' \<mapsto> i)\<rparr>))
 \<and> userAuth L env now
       (req\<lparr>body := map_option (\<lambda>b. b(''userId'' := supplied)) (body req)\<rparr>) =
     userAuth L env now req
 \<and> (cookies req ''token'' = Some tok \<and> jwt_verify L tok (JWT_SECRET env) now = Inr tokenDecode
      \<and> falsy (jwt_id tokenDecode) \<longrightarrow>
      userAuth L env now req =
        Respond \<lparr>success = False, message = Some (Literal ''Not Authorized, login again''),
                 set_cookies = []\<rparr>)"
  by (auto simp: userAuth_def Let_def falsy_def split: if_splits option.splits sum.splits)

theorem userAuth_userId_from_token_witness:
  "userAuth demo_libs demo_env 0 (incoming ''k.u1'' (Some [(''userId'', ''u2'')])) =
     Next (with_cookie ''k.u1'' [(''userId'', ''u1'')])
 \<and> body (with_cookie ''k.u1'' [(''userId'', ''u1'')]) ''userId'' = Some ''u1''
 \<and> jwt_verify demo_libs ''k.'' (JWT_SECRET demo_env) 0 =
      Inr \<lparr>jwt_id = Some [], jwt_iat = 0, jwt_exp = None\<rparr>
 \<and> userAuth demo_libs demo_env 0 (incoming ''k.'' (Some [])) =
      Respond \<lparr>success = False, message = Some (Literal ''Not Authorized, login again''),
               set_cookies = []\<rparr>"
proof -
  have h1: "userAuth demo_libs demo_env 0 (incoming ''k.u1'' (Some [(''userId'', ''u2'')])) =
     Next (with_cookie ''k.u1'' [(''userId'', ''u1'')])"
    by (simp add: userAuth_def Let_def falsy_simps incoming_def with_cookie_def demo_libs_def
          demo_env_def)
  have h2: "cookies (incoming ''k.'' (Some [])) ''token'' = Some ''k.''"
    by (simp add: incoming_def)
  have h3: "jwt_verify demo_libs ''k.'' (JWT_SECRET demo_env) 0 =
      Inr \<lparr>jwt_id = Some [], jwt_iat = 0, jwt_exp = None\<rparr>"
    by (simp add: demo_libs_def demo_env_def)
  have h4: "falsy (jwt_id \<lparr>jwt_id = Some [], jwt_iat = 0, jwt_exp = None\<rparr>)"
    by (simp add: falsy_simps)
  show ?thesis
    using h1 h2 h3 h4
      userAuth_userId_from_token [of demo_libs demo_env 0
        "incoming ''k.u1'' (Some [(''userId'', ''u2'')])" "with_cookie ''k.u1'' [(''userId'', ''u1'')]"]
      userAuth_userId_from_token [of demo_libs demo_env 0 "incoming ''k.'' (Some [])" _ _ "''k.''"
        "\<lparr>jwt_id = Some [], jwt_iat = 0, jwt_exp = None\<rparr>"]
    by (simp add: with_cookie_def)
qed

section \<open>One-time codes\<close>

subsection \<open>Lookups after an update\<close>

lemma findById_updateById:
  assumes "\<And>a. doc_id (f a) = doc_id a"
  shows "findById (updateById db i f) i = map_option f (findById db i)"
  by (induction db) (simp_all add: findById_def updateById_def assms)

lemma findOne_updateById:
  assumes "\<And>a. email (f a) = email a"
  shows "findOne (updateById db i f) em =
           map_option (\<lambda>u. if doc_id u = i then f u else u) (findOne db em)"
  by (induction db) (simp_all add: findOne_def updateById_def assms)

lemma length_updateById: "length (updateById db i f) = length db"
  by (simp add: updateById_def)

lemma findById_Some_id: "findById db i = Some u \<Longrightarrow> doc_id u = i"
  by (auto simp: findById_def find_Some_iff)

subsection \<open>Decimal strings\<close>

lemma digit_char_props:
  assumes "d < 10"
  shows "is_digit (digit_char d)" and "digit_value (digit_char d) = d"
proof -
  from assms have "d \<in> {0, 1, 2, 3, 4, 5, 6, 7, 8, 9}" by auto
  then show "is_digit (digit_char d)" and "digit_value (digit_char d) = d"
    by (auto simp: is_digit_def digit_char_def digit_value_def)
qed

lemma digit_char_digit_value: "is_digit c \<Longrightarrow> digit_char (digit_value c) = c"
  by (auto simp: is_digit_def digit_value_def digit_char_def)

lemma digit_value_inj:
  assumes "is_digit c" and "is_digit c'" and "digit_value c = digit_value c'"
  shows "c = c'"
  using assms by (metis digit_char_digit_value)

lemma digit_value_less: "is_digit c \<Longrightarrow> digit_value c < 10"
  by (auto simp: is_digit_def digit_value_def)

lemma decimal_digits: "list_all is_digit (decimal n)"
proof (induction n rule: decimal.induct)
  case (1 n)
  show ?case
  proof (cases "n < 10")
    case True
    then show ?thesis by (subst decimal.simps) (simp add: digit_char_props)
  next
    case False
    with "1" show ?thesis
      by (subst decimal.simps) (simp add: digit_char_props)
  qed
qed

lemma otp_value_snoc: "otp_value (s @ [c]) = 10 * otp_value s + digit_value c"
  by (simp add: otp_value_def)

lemma otp_value_decimal: "otp_value (decimal n) = n"
proof (induction n rule: decimal.induct)
  case (1 n)
  show ?case
  proof (cases "n < 10")
    case True
    then show ?thesis by (subst decimal.simps) (simp add: otp_value_def digit_char_props)
  next
    case False
    with "1" have "otp_value (decimal (n div 10)) = n div 10" by simp
    with False show ?thesis
      by (subst decimal.simps) (simp add: otp_value_snoc digit_char_props)
  qed
qed

lemma length_decimal: "n < 10 ^ k \<Longrightarrow> 0 < k \<Longrightarrow> length (decimal n) \<le> k"
proof (induction k arbitrary: n)
  case 0
  then show ?case by simp
next
  case (Suc k)
  show ?case
  proof (cases "n < 10")
    case True
    then show ?thesis by (subst decimal.simps) simp
  next
    case False
    with Suc.prems have "n div 10 < 10 ^ k" and "0 < k"
      by (auto simp: less_mult_imp_div_less mult.commute intro: Suc_lessI gr0I)
    with Suc.IH have "length (decimal (n div 10)) \<le> k" by simp
    with False show ?thesis by (subst decimal.simps) simp
  qed
qed

lemma otp_value_zeros: "otp_value (replicate k (CHR ''0'') @ s) = otp_value s"
proof -
  have "foldl (\<lambda>a c. 10 * a + digit_value c) 0 (replicate k (CHR ''0'')) = 0"
    by (induction k) (simp_all add: digit_value_def)
  then show ?thesis by (simp add: otp_value_def)
qed

lemma otp_value_bound: "list_all is_digit s \<Longrightarrow> otp_value s < 10 ^ length s"
proof (induction s rule: rev_induct)
  case Nil
  then show ?case by (simp add: otp_value_def)
next
  case (snoc c s)
  then have "otp_value s < 10 ^ length s" and "digit_value c < 10"
    by (simp_all add: digit_value_less)
  then have "10 * otp_value s + digit_value c < 10 * 10 ^ length s" by linarith
  then show ?case by (simp add: otp_value_snoc)
qed

lemma otp_value_inj:
  "length s = length t \<Longrightarrow> list_all is_digit s \<Longrightarrow> list_all is_digit t \<Longrightarrow>
   otp_value s = otp_value t \<Longrightarrow> s = t"
proof (induction s arbitrary: t rule: rev_induct)
  case Nil
  then show ?case by simp
next
  case (snoc c s)
  from snoc.prems(1) obtain t' c' where t: "t = t' @ [c']"
    by (cases t rule: rev_cases) auto
  with snoc.prems have len: "length s = length t'" and ds: "list_all is_digit s"
    and dt: "list_all is_digit t'" and dc: "is_digit c" "is_digit c'"
    and eq: "10 * otp_value s + digit_value c = 10 * otp_value t' + digit_value c'"
    by (simp_all add: otp_value_snoc)
  from dc have "digit_value c < 10" "digit_value c' < 10" by (simp_all add: digit_value_less)
  with eq have "otp_value s = otp_value t'" and "digit_value c = digit_value c'" by arith+
  with snoc.IH [OF len ds dt] dc t show ?case by (simp add: digit_value_inj)
qed

lemma generateOtp_format: "matches_otp_pattern (generateOtp rnd)"
proof -
  have "length (decimal (rnd mod 1000000)) \<le> 6"
    using length_decimal [of "rnd mod 1000000" 6] by simp
  moreover have "is_digit (CHR ''0'')" by (simp add: is_digit_def)
  ultimately show ?thesis
    using decimal_digits [of "rnd mod 1000000"]
    by (auto simp: matches_otp_pattern_def generateOtp_def padStart_def list_all_iff)
qed

lemma otp_value_generateOtp: "otp_value (generateOtp rnd) = rnd mod 1000000"
  by (simp add: generateOtp_def padStart_def otp_value_zeros otp_value_decimal)

lemma generateOtp_onto:
  assumes "matches_otp_pattern s"
  shows "otp_value s < 1000000" and "generateOtp (otp_value s) = s"
proof -
  from assms have len: "length s = 6" and dig: "list_all is_digit s"
    by (simp_all add: matches_otp_pattern_def)
  from otp_value_bound [OF dig] len show lt: "otp_value s < 1000000" by simp
  have "matches_otp_pattern (generateOtp (otp_value s))" by (rule generateOtp_format)
  then have "length (generateOtp (otp_value s)) = length s"
    and "list_all is_digit (generateOtp (otp_value s))"
    using len by (simp_all add: matches_otp_pattern_def)
  moreover have "otp_value (generateOtp (otp_value s)) = otp_value s"
    using lt by (simp add: otp_value_generateOtp)
  ultimately show "generateOtp (otp_value s) = s"
    using dig otp_value_inj [of "generateOtp (otp_value s)" s] by blast
qed


lemma generateOtp_bij: "bij_betw generateOtp {..<1000000} (Collect matches_otp_pattern)"
proof (rule bij_betw_byWitness [where f' = otp_value])
  show "\<forall>r\<in>{..<1000000}. otp_value (generateOtp r) = r"
    by (simp add: otp_value_generateOtp)
  show "\<forall>s\<in>Collect matches_otp_pattern. generateOtp (otp_value s) = s"
    by (simp add: generateOtp_onto)
  show "generateOtp ` {..<1000000} \<subseteq> Collect matches_otp_pattern"
    by (auto simp: generateOtp_format)
  show "otp_value ` Collect matches_otp_pattern \<subseteq> {..<1000000}"
    by (auto simp: generateOtp_onto)
qed

lemma demo_generateOtp: "generateOtp 42 = ''000042''" "generateOtp 1234042 = ''234042''"
  by (simp_all add: generateOtp_def padStart_def digit_char_def decimal.simps)
    (simp add: numeral_eq_Suc)

subsection \<open>Generated codes\<close>

text \<open>
  Claim C9. Every code that \<open>sendVerificationCode\<close> or \<open>requestPasswordReset\<close>
  stores is \<open>generateOtp\<close> of the random draw: a string of exactly six decimal digits,
  the draw's residue below one million padded with zeros. The residues below one
  million and the strings of the pattern \<open>^[0-9]{6}$\<close> correspond one to one, so a
  draw that is uniform over the residues gives every six-digit code with the same
  probability.
\<close>

theorem generateOtp_six_digits:
  "matches_otp_pattern (generateOtp rnd)
 \<and> length (generateOtp rnd) = 6 \<and> list_all is_digit (generateOtp rnd)
 \<and> otp_value (generateOtp rnd) = rnd mod 1000000
 \<and> bij_betw generateOtp {..<1000000} (Collect matches_otp_pattern)
 \<and> (findById db accountId = Some u \<and> \<not> isAccountVerified u \<longrightarrow>
      findById (fst (sendVerificationCode delivered now rnd db accountId)) accountId =
        Some (u\<lparr>verifyOtp := generateOtp rnd,
                verifyOtpExpireAt := now + 24 * 60 * 60 * 1000\<rparr>))
 \<and> (findOne db em = Some u' \<longrightarrow>
      findOne (fst (requestPasswordReset delivered now rnd db em)) em =
        Some (u'\<lparr>resetOtp := generateOtp rnd, resetOtpExpireAt := now + 15 * 60 * 1000\<rparr>))"
proof (intro conjI impI)
  show fmt: "matches_otp_pattern (generateOtp rnd)" by (rule generateOtp_format)
  then show "length (generateOtp rnd) = 6" and "list_all is_digit (generateOtp rnd)"
    by (simp_all add: matches_otp_pattern_def)
  show "otp_value (generateOtp rnd) = rnd mod 1000000" by (rule otp_value_generateOtp)
  show "bij_betw generateOtp {..<1000000} (Collect matches_otp_pattern)"
    by (rule generateOtp_bij)
next
  assume "findById db accountId = Some u \<and> \<not> isAccountVerified u"
  then show "findById (fst (sendVerificationCode delivered now rnd db accountId)) accountId =
        Some (u\<lparr>verifyOtp := generateOtp rnd,
                verifyOtpExpireAt := now + 24 * 60 * 60 * 1000\<rparr>)"
    by (simp add: sendVerificationCode_def Let_def findById_updateById)
next
  assume "findOne db em = Some u'"
  then show "findOne (fst (requestPasswordReset delivered now rnd db em)) em =
        Some (u'\<lparr>resetOtp := generateOtp rnd, resetOtpExpireAt := now + 15 * 60 * 1000\<rparr>)"
    by (simp add: requestPasswordReset_def Let_def findOne_updateById)
qed

theorem generateOtp_six_digits_witness:
  "generateOtp 42 = ''000042'' \<and> matches_otp_pattern ''000042''
 \<and> findById [alice] ''u1'' = Some alice \<and> \<not> isAccountVerified alice
 \<and> findById (fst (sendVerificationCode True 1000 42 [alice] ''u1'')) ''u1'' =
      Some (alice\<lparr>verifyOtp := ''000042'', verifyOtpExpireAt := 86401000\<rparr>)
 \<and> findOne [alice] ''a@x.com'' = Some alice
 \<and> findOne (fst (requestPasswordReset True 1000 42 [alice] ''a@x.com'')) ''a@x.com'' =
      Some (alice\<lparr>resetOtp := ''000042'', resetOtpExpireAt := 901000\<rparr>)"
proof -
  have h1: "findById [alice] ''u1'' = Some alice" "\<not> isAccountVerified alice"
    "findOne [alice] ''a@x.com'' = Some alice"
    by (simp_all add: findById_def findOne_def alice_def)
  note inst = generateOtp_six_digits [of 42 "[alice]" "''u1''" alice True 1000 "''a@x.com''" alice]
  from inst have "matches_otp_pattern (generateOtp 42)" by blast
  moreover from inst h1
  have "findById (fst (sendVerificationCode True 1000 42 [alice] ''u1'')) ''u1'' =
      Some (alice\<lparr>verifyOtp := generateOtp 42, verifyOtpExpireAt := 1000 + 24 * 60 * 60 * 1000\<rparr>)"
    by blast
  moreover from inst h1
  have "findOne (fst (requestPasswordReset True 1000 42 [alice] ''a@x.com'')) ''a@x.com'' =
      Some (alice\<lparr>resetOtp := generateOtp 42, resetOtpExpireAt := 1000 + 15 * 60 * 1000\<rparr>)"
    by blast
  ultimately show ?thesis
    using h1 by (simp add: demo_generateOtp)
qed

subsection \<open>Consumed and expired codes\<close>

text \<open>
  Claim C1. After \<open>verifyAccount\<close> has succeeded or has found the code expired, the
  account's verification code is empty and its expiry is zero; the same holds for the
  reset code after \<open>resetPassword\<close>. So \<open>verifyAccount\<close> with the stored code before
  its expiry succeeds, and a second call with the same code, at any time, fails with
  InvalidCodeError and changes nothing.
\<close>

theorem codes_single_use:
  "(verifyAccount now db accountId code = (db', r) \<and> (r = Inr () \<or> r = Inl ExpiredCodeError)
      \<longrightarrow> (\<exists>u'. findById db' accountId = Some u' \<and> verifyOtp u' = [] \<and> verifyOtpExpireAt u' = 0))
 \<and> (resetPassword L now salt db em code newPassword = (db'', r')
        \<and> (r' = Inr () \<or> r' = Inl ExpiredCodeError)
      \<longrightarrow> (\<exists>u'. findOne db'' em = Some u' \<and> resetOtp u' = [] \<and> resetOtpExpireAt u' = 0))
 \<and> (findById db accountId = Some u \<and> verifyOtp u = code \<and> code \<noteq> []
        \<and> now < verifyOtpExpireAt u
      \<longrightarrow> snd (verifyAccount now db accountId code) = Inr ()
        \<and> snd (verifyAccount now' (fst (verifyAccount now db accountId code)) accountId code)
            = Inl InvalidCodeError
        \<and> fst (verifyAccount now' (fst (verifyAccount now db accountId code)) accountId code)
            = fst (verifyAccount now db accountId code))"
proof (intro conjI impI)
  assume "verifyAccount now db accountId code = (db', r) \<and> (r = Inr () \<or> r = Inl ExpiredCodeError)"
  then show "\<exists>u'. findById db' accountId = Some u' \<and> verifyOtp u' = [] \<and> verifyOtpExpireAt u' = 0"
    by (auto simp: verifyAccount_def findById_updateById split: if_splits option.splits)
next
  assume a: "resetPassword L now salt db em code newPassword = (db'', r')
        \<and> (r' = Inr () \<or> r' = Inl ExpiredCodeError)"
  then obtain u where u: "findOne db em = Some u"
    by (auto simp: resetPassword_def split: if_splits option.splits)
  with a show "\<exists>u'. findOne db'' em = Some u' \<and> resetOtp u' = [] \<and> resetOtpExpireAt u' = 0"
    by (auto simp: resetPassword_def findOne_updateById split: if_splits)
next
  assume b: "findById db accountId = Some u \<and> verifyOtp u = code \<and> code \<noteq> []
        \<and> now < verifyOtpExpireAt u"
  then have first: "verifyAccount now db accountId code =
      (updateById db accountId
         (\<lambda>a. a\<lparr>isAccountVerified := True, verifyOtp := [], verifyOtpExpireAt := 0\<rparr>), Inr ())"
    by (auto simp: verifyAccount_def)
  then show "snd (verifyAccount now db accountId code) = Inr ()" by simp
  from b show "snd (verifyAccount now' (fst (verifyAccount now db accountId code)) accountId code)
            = Inl InvalidCodeError"
    and "fst (verifyAccount now' (fst (verifyAccount now db accountId code)) accountId code)
            = fst (verifyAccount now db accountId code)"
    unfolding first by (simp_all add: verifyAccount_def findById_updateById)
qed

theorem codes_single_use_witness:
  "verifyAccount 50 [alice_pending] ''u1'' ''000042'' =
     ([alice_pending\<lparr>isAccountVerified := True, verifyOtp := [], verifyOtpExpireAt := 0\<rparr>],
      Inr ())
 \<and> verifyAccount 60
       [alice_pending\<lparr>isAccountVerified := True, verifyOtp := [], verifyOtpExpireAt := 0\<rparr>]
       ''u1'' ''000042'' =
     ([alice_pending\<lparr>isAccountVerified := True, verifyOtp := [], verifyOtpExpireAt := 0\<rparr>],
      Inl InvalidCodeError)
 \<and> resetPassword demo_libs 200 ''t'' [alice_pending] ''a@x.com'' ''234042'' ''p2'' =
     ([alice_pending\<lparr>resetOtp := [], resetOtpExpireAt := 0\<rparr>], Inl ExpiredCodeError)"
proof -
  let ?done = "alice_pending\<lparr>isAccountVerified := True, verifyOtp := [], verifyOtpExpireAt := 0\<rparr>"
  have first: "verifyAccount 50 [alice_pending] ''u1'' ''000042'' = ([?done], Inr ())"
    by (simp add: verifyAccount_def findById_def updateById_def alice_pending_def)
  have reset: "resetPassword demo_libs 200 ''t'' [alice_pending] ''a@x.com'' ''234042'' ''p2'' =
     ([alice_pending\<lparr>resetOtp := [], resetOtpExpireAt := 0\<rparr>], Inl ExpiredCodeError)"
    by (simp add: resetPassword_def findOne_def updateById_def alice_pending_def)
  have h: "findById [alice_pending] ''u1'' = Some alice_pending"
    "verifyOtp alice_pending = ''000042''" "''000042'' \<noteq> []"
    "50 < verifyOtpExpireAt alice_pending"
    by (simp_all add: findById_def alice_pending_def)
  note inst = codes_single_use [of 50 "[alice_pending]" "''u1''" "''000042''" "[?done]" "Inr ()"
      demo_libs "''t''" "''a@x.com''" "''p2''" "[alice_pending\<lparr>resetOtp := [], resetOtpExpireAt := 0\<rparr>]"
      "Inl ExpiredCodeError" alice_pending 60]
  from inst h have "snd (verifyAccount 60 (fst (verifyAccount 50 [alice_pending] ''u1'' ''000042''))
      ''u1'' ''000042'') = Inl InvalidCodeError"
    and "fst (verifyAccount 60 (fst (verifyAccount 50 [alice_pending] ''u1'' ''000042''))
      ''u1'' ''000042'') = fst (verifyAccount 50 [alice_pending] ''u1'' ''000042'')"
    by blast+
  then have "verifyAccount 60 [?done] ''u1'' ''000042'' = ([?done], Inl InvalidCodeError)"
    by (simp add: first prod_eq_iff)
  with first reset show ?thesis by blast
qed

text \<open>
  Claim C6. For an account whose stored verification code is the submitted one,
  \<open>verifyAccount\<close> at a time after the code's expiry fails with ExpiredCodeError. The
  only change to the store is that the account's code and expiry are cleared: the
  verification state of every account is what it was, so an unverified account stays
  unverified.
\<close>

theorem verifyAccount_expired:
  assumes "findById db accountId = Some u" and "verifyOtp u = code" and "code \<noteq> []"
      and "verifyOtpExpireAt u < now"
  shows "verifyAccount now db accountId code =
           (map (\<lambda>a. if doc_id a = accountId
                     then a\<lparr>verifyOtp := [], verifyOtpExpireAt := 0\<rparr> else a) db,
            Inl ExpiredCodeError)
       \<and> findById (fst (verifyAccount now db accountId code)) accountId =
           Some (u\<lparr>verifyOtp := [], verifyOtpExpireAt := 0\<rparr>)
       \<and> map isAccountVerified (fst (verifyAccount now db accountId code)) =
           map isAccountVerified db
       \<and> (\<not> isAccountVerified u \<longrightarrow>
            (\<exists>u'. findById (fst (verifyAccount now db accountId code)) accountId = Some u'
                 \<and> \<not> isAccountVerified u'))"
proof -
  have eq: "verifyAccount now db accountId code =
      (updateById db accountId (\<lambda>a. a\<lparr>verifyOtp := [], verifyOtpExpireAt := 0\<rparr>),
       Inl ExpiredCodeError)"
    using assms by (simp add: verifyAccount_def)
  have "map isAccountVerified
          (updateById db accountId (\<lambda>a. a\<lparr>verifyOtp := [], verifyOtpExpireAt := 0\<rparr>)) =
        map isAccountVerified db"
    by (simp add: updateById_def comp_def if_distrib [of isAccountVerified])
  with assms(1) show ?thesis
    unfolding eq by (simp add: findById_updateById) (simp add: updateById_def)
qed

theorem verifyAccount_expired_witness:
  "findById [alice_pending] ''u1'' = Some alice_pending
 \<and> verifyOtpExpireAt alice_pending < 101
 \<and> verifyAccount 101 [alice_pending] ''u1'' ''000042'' =
     ([alice_pending\<lparr>verifyOtp := [], verifyOtpExpireAt := 0\<rparr>], Inl ExpiredCodeError)
 \<and> isAccountVerified (alice_pending\<lparr>verifyOtp := [], verifyOtpExpireAt := 0\<rparr>) = False"
proof -
  have h: "findById [alice_pending] ''u1'' = Some alice_pending"
    "verifyOtp alice_pending = ''000042''" "''000042'' \<noteq> []"
    "verifyOtpExpireAt alice_pending < 101"
    by (simp_all add: findById_def alice_pending_def)
  from verifyAccount_expired [OF h]
  have "verifyAccount 101 [alice_pending] ''u1'' ''000042'' =
     ([alice_pending\<lparr>verifyOtp := [], verifyOtpExpireAt := 0\<rparr>], Inl ExpiredCodeError)"
    by (simp add: alice_pending_def)
  with h show ?thesis by (simp add: alice_pending_def)
qed

subsection \<open>Password reset\<close>

text \<open>
  Claim C5. For an account with a pending reset code (not empty, its expiry still
  ahead), \<open>resetPassword\<close> with that code and a new password succeeds, stores the hash
  of the new password and clears the reset code and its expiry. A later \<open>login\<close> with
  the new password succeeds, and one with the old password fails. What is asked of the
  hashing library is its contract: the new password matches its own hash and the old
  password does not.
\<close>

theorem resetPassword_changes_login:
  assumes "findOne db em = Some u" and "em \<noteq> []"
      and "resetOtp u = code" and "code \<noteq> []" and "now < resetOtpExpireAt u"
      and "newPassword \<noteq> []"
      and new_ok: "bcrypt_compare L newPassword (bcrypt_hash L newPassword 10 salt)"
      and old_no: "\<not> bcrypt_compare L oldPassword (bcrypt_hash L newPassword 10 salt)"
      and old_req: "body req_old ''email'' = Some em" "body req_old ''password'' = Some oldPassword"
      and new_req: "body req_new ''email'' = Some em" "body req_new ''password'' = Some newPassword"
  shows "snd (resetPassword L now salt db em code newPassword) = Inr ()
       \<and> findOne (fst (resetPassword L now salt db em code newPassword)) em =
           Some (u\<lparr>password := bcrypt_hash L newPassword 10 salt,
                   resetOtp := [], resetOtpExpireAt := 0\<rparr>)
       \<and> \<not> success (login L env t (fst (resetPassword L now salt db em code newPassword)) req_old)
       \<and> success (login L env t (fst (resetPassword L now salt db em code newPassword)) req_new)"
proof -
  let ?f = "\<lambda>a. a\<lparr>password := bcrypt_hash L newPassword 10 salt,
                   resetOtp := [], resetOtpExpireAt := 0\<rparr>"
  have eq: "resetPassword L now salt db em code newPassword =
      (updateById db (doc_id u) ?f, Inr ())"
    using assms(1-6) by (simp add: resetPassword_def)
  have found: "findOne (updateById db (doc_id u) ?f) em = Some (?f u)"
    using assms(1) by (simp add: findOne_updateById)
  have "\<not> success (login L env t (updateById db (doc_id u) ?f) req_old)"
    using found old_no old_req by (simp add: login_def Let_def falsy_simps)
  moreover have "success (login L env t (updateById db (doc_id u) ?f) req_new)"
    using found new_ok new_req assms(2,6) by (simp add: login_def Let_def falsy_simps)
  ultimately show ?thesis
    unfolding eq using found by simp
qed

theorem resetPassword_changes_login_witness:
  "findOne [alice_pending] ''a@x.com'' = Some alice_pending
 \<and> 50 < resetOtpExpireAt alice_pending
 \<and> bcrypt_compare demo_libs ''p2'' (bcrypt_hash demo_libs ''p2'' 10 ''t'')
 \<and> \<not> bcrypt_compare demo_libs ''p1'' (bcrypt_hash demo_libs ''p2'' 10 ''t'')
 \<and> resetPassword demo_libs 50 ''t'' [alice_pending] ''a@x.com'' ''234042'' ''p2'' =
     ([alice_pending\<lparr>password := ''t$p2'', resetOtp := [], resetOtpExpireAt := 0\<rparr>], Inr ())
 \<and> \<not> success (login demo_libs demo_env 60
       [alice_pending\<lparr>password := ''t$p2'', resetOtp := [], resetOtpExpireAt := 0\<rparr>]
       (json_body [(''email'', ''a@x.com''), (''password'', ''p1'')]))
 \<and> success (login demo_libs demo_env 60
       [alice_pending\<lparr>password := ''t$p2'', resetOtp := [], resetOtpExpireAt := 0\<rparr>]
       (json_body [(''email'', ''a@x.com''), (''password'', ''p2'')]))"
proof -
  let ?old = "json_body [(''email'', ''a@x.com''), (''password'', ''p1'')]"
  let ?new = "json_body [(''email'', ''a@x.com''), (''password'', ''p2'')]"
  have h: "findOne [alice_pending] ''a@x.com'' = Some alice_pending" "''a@x.com'' \<noteq> []"
    "resetOtp alice_pending = ''234042''" "''234042'' \<noteq> []"
    "50 < resetOtpExpireAt alice_pending" "''p2'' \<noteq> []"
    "bcrypt_compare demo_libs ''p2'' (bcrypt_hash demo_libs ''p2'' 10 ''t'')"
    "\<not> bcrypt_compare demo_libs ''p1'' (bcrypt_hash demo_libs ''p2'' 10 ''t'')"
    "body ?old ''email'' = Some ''a@x.com''" "body ?old ''password'' = Some ''p1''"
    "body ?new ''email'' = Some ''a@x.com''" "body ?new ''password'' = Some ''p2''"
    by (simp_all add: findOne_def alice_pending_def demo_libs_def json_body_def)
  have eq: "resetPassword demo_libs 50 ''t'' [alice_pending] ''a@x.com'' ''234042'' ''p2'' =
     ([alice_pending\<lparr>password := ''t$p2'', resetOtp := [], resetOtpExpireAt := 0\<rparr>], Inr ())"
    by (simp add: resetPassword_def findOne_def updateById_def alice_pending_def demo_libs_def)
  from resetPassword_changes_login [OF h, of demo_env 60] h(1,5,7,8) eq
  show ?thesis by simp
qed

end
